theory Spec2Isabelle
  imports Complex_Main "HOL-Library.Sublist"
begin

section \<open>Values\<close>

text \<open>
  A Python \<open>str\<close> is a sequence of Unicode code points, and two of them are equal when
  the sequences are. The program's texts are Cyrillic, so a string is modelled as the
  list of its code points; \<open>ascii\<close> embeds an ASCII literal.
\<close>

type_synonym ustr = "nat list"

definition ascii :: "string \<Rightarrow> ustr" where
  "ascii = map of_char"

text \<open>
  What \<open>response.json()\<close> can return: the Python image of a JSON document. A dict is
  the list of its items in insertion order, looked up with \<open>map_of\<close> (the decoder
  builds dicts with distinct keys). A float is the rational it denotes; only its being
  zero or not is ever inspected.
\<close>

datatype json =
    JNull
  | JBool bool
  | JInt int
  | JFloat rat
  | JStr ustr
  | JList "json list"
  | JDict "(ustr \<times> json) list"

text \<open>Truthiness, as \<open>x or y\<close> tests it.\<close>

fun truthy :: "json \<Rightarrow> bool" where
  "truthy JNull = False"
| "truthy (JBool b) = b"
| "truthy (JInt i) = (i \<noteq> 0)"
| "truthy (JFloat r) = (r \<noteq> 0)"
| "truthy (JStr s) = (s \<noteq> [])"
| "truthy (JList xs) = (xs \<noteq> [])"
| "truthy (JDict kvs) = (kvs \<noteq> [])"

section \<open>Exceptions\<close>

text \<open>
  Every exception the program can raise is a value. The constructors that carry a text
  carry the message the source passes to the exception class. Three kinds are raised by
  the interpreter itself and not by a \<open>raise\<close> of the source: \<open>NotIterable\<close> (the
  TypeError of \<open>k in x\<close> on a number, a bool or None), \<open>Unhashable\<close> (the TypeError of
  looking a list or a dict up in a dict) and \<open>NoAttribute\<close> (the AttributeError of
  \<open>x.get\<close> on a value that is not a dict). \<open>RequestException\<close> and
  \<open>JSONDecodeError\<close> are what \<open>requests.get\<close> and \<open>response.json()\<close> raise.

  The class \<open>WrongResponseCode\<close> is raised at two places of \<open>get_api_answer\<close>: inside
  the \<open>try\<close> with a message built from the status code, the reason and the body text
  (\<open>WrongResponseCode_status\<close>), and in the handler with a message built from the
  request parameters together with the exception that was caught
  (\<open>WrongResponseCode\<close>, which carries the \<open>from_date\<close> of the request and the cause).
  \<open>ValueError\<close> carries the status value its message is formatted from.
\<close>

text \<open>
  Modelled from the spec: the module \<open>exceptions\<close>, which declares the classes
  \<open>EmptyResponseFromAPI\<close>, \<open>TelegramError\<close> and \<open>WrongResponseCode\<close>, is not among
  the sources. The specification describes them as typed errors of the program, and the
  first and the last as errors that the poll loop reports (sections 4.1, 4.2 and 7). The
  three are taken to be ordinary exception classes, subclasses of \<open>Exception\<close>, as all
  the others are, so that an \<open>except Exception\<close> clause catches every value of this
  type. How \<open>str\<close> renders them is not fixed: it is a parameter of the poll loop.
\<close>

datatype error =
    TypeError ustr
  | KeyError ustr
  | ValueError json
  | EmptyResponseFromAPI ustr
  | WrongResponseCode json error
  | WrongResponseCode_status int ustr ustr
  | TelegramError ustr
  | RequestException ustr
  | JSONDecodeError ustr
  | NotIterable
  | Unhashable
  | NoAttribute

section \<open>Constants of the module\<close>

definition RETRY_PERIOD :: nat where
  "RETRY_PERIOD = 600"

text \<open>
  \<open>HOMEWORK_VERDICTS\<close>, in the order of the source. The three texts are, transliterated:
  "Rabota proverena: rev'yueru vsyo ponravilos'. Ura!", "Rabota vzyata na proverku
  rev'yuerom." and "Rabota proverena: u rev'yuera est' zamechaniya.".
\<close>

definition verdict_approved :: ustr where
  "verdict_approved =
     [1056, 1072, 1073, 1086, 1090, 1072, 32, 1087, 1088, 1086, 1074, 1077, 1088, 1077,
      1085, 1072, 58, 32, 1088, 1077, 1074, 1100, 1102, 1077, 1088, 1091, 32, 1074, 1089,
      1105, 32, 1087, 1086, 1085, 1088, 1072, 1074, 1080, 1083, 1086, 1089, 1100, 46, 32,
      1059, 1088, 1072, 33]"

definition verdict_reviewing :: ustr where
  "verdict_reviewing =
     [1056, 1072, 1073, 1086, 1090, 1072, 32, 1074, 1079, 1103, 1090, 1072, 32, 1085,
      1072, 32, 1087, 1088, 1086, 1074, 1077, 1088, 1082, 1091, 32, 1088, 1077, 1074,
      1100, 1102, 1077, 1088, 1086, 1084, 46]"

definition verdict_rejected :: ustr where
  "verdict_rejected =
     [1056, 1072, 1073, 1086, 1090, 1072, 32, 1087, 1088, 1086, 1074, 1077, 1088, 1077,
      1085, 1072, 58, 32, 1091, 32, 1088, 1077, 1074, 1100, 1102, 1077, 1088, 1072, 32,
      1077, 1089, 1090, 1100, 32, 1079, 1072, 1084, 1077, 1095, 1072, 1085, 1080, 1103,
      46]"

definition HOMEWORK_VERDICTS :: "(ustr \<times> ustr) list" where
  "HOMEWORK_VERDICTS =
     [(ascii ''approved'', verdict_approved),
      (ascii ''reviewing'', verdict_reviewing),
      (ascii ''rejected'', verdict_rejected)]"

text \<open>
  The other texts of the source, transliterated: "Otvet ne yavlyaetsya dict", "Net
  klyucha homeworks v otvete", "homeworks ne yavlyaetsya list", "Net klyucha
  homework_name v otvete", "Izmenilsya status proverki raboty " followed by a double
  quote, "Status ne izmenilsya", "Sboi v rabote programmy: " and "Oshibka
  otpravki soobshcheniya v Telegram: ".
\<close>

definition text_not_dict :: ustr where
  "text_not_dict =
     [1054, 1090, 1074, 1077, 1090, 32, 1085, 1077, 32, 1103, 1074, 1083, 1103, 1077,
      1090, 1089, 1103, 32, 100, 105, 99, 116]"

definition text_no_homeworks :: ustr where
  "text_no_homeworks =
     [1053, 1077, 1090, 32, 1082, 1083, 1102, 1095, 1072, 32, 104, 111, 109, 101, 119,
      111, 114, 107, 115, 32, 1074, 32, 1086, 1090, 1074, 1077, 1090, 1077]"

definition text_not_list :: ustr where
  "text_not_list =
     [104, 111, 109, 101, 119, 111, 114, 107, 115, 32, 1085, 1077, 32, 1103, 1074, 1083,
      1103, 1077, 1090, 1089, 1103, 32, 108, 105, 115, 116]"

definition text_no_homework_name :: ustr where
  "text_no_homework_name =
     [1053, 1077, 1090, 32, 1082, 1083, 1102, 1095, 1072, 32, 104, 111, 109, 101, 119,
      111, 114, 107, 95, 110, 97, 109, 101, 32, 1074, 32, 1086, 1090, 1074, 1077, 1090,
      1077]"

definition status_changed_prefix :: ustr where
  "status_changed_prefix =
     [1048, 1079, 1084, 1077, 1085, 1080, 1083, 1089, 1103, 32, 1089, 1090, 1072, 1090,
      1091, 1089, 32, 1087, 1088, 1086, 1074, 1077, 1088, 1082, 1080, 32, 1088, 1072,
      1073, 1086, 1090, 1099, 32, 34]"

definition status_unchanged :: ustr where
  "status_unchanged =
     [1057, 1090, 1072, 1090, 1091, 1089, 32, 1085, 1077, 32, 1080, 1079, 1084, 1077,
      1085, 1080, 1083, 1089, 1103]"

definition failure_prefix :: ustr where
  "failure_prefix =
     [1057, 1073, 1086, 1081, 32, 1074, 32, 1088, 1072, 1073, 1086, 1090, 1077, 32, 1087,
      1088, 1086, 1075, 1088, 1072, 1084, 1084, 1099, 58, 32]"

definition telegram_error_prefix :: ustr where
  "telegram_error_prefix =
     [1054, 1096, 1080, 1073, 1082, 1072, 32, 1086, 1090, 1087, 1088, 1072, 1074, 1082,
      1080, 32, 1089, 1086, 1086, 1073, 1097, 1077, 1085, 1080, 1103, 32, 1074, 32, 84,
      101, 108, 101, 103, 114, 97, 109, 58, 32]"

section \<open>Operations of the interpreter on values\<close>

text \<open>\<open>k in x\<close> for a string \<open>k\<close>: a key test on a dict, a substring test on a string, a
  membership test on a list, a TypeError on every other value.\<close>

fun py_in :: "ustr \<Rightarrow> json \<Rightarrow> error + bool" where
  "py_in k (JDict kvs) = Inr (map_of kvs k \<noteq> None)"
| "py_in k (JStr s) = Inr (sublist k s)"
| "py_in k (JList xs) = Inr (JStr k \<in> set xs)"
| "py_in k JNull = Inl NotIterable"
| "py_in k (JBool b) = Inl NotIterable"
| "py_in k (JInt i) = Inl NotIterable"
| "py_in k (JFloat r) = Inl NotIterable"

text \<open>\<open>x.get(k, d)\<close>: only a dict has the method.\<close>

fun py_get :: "json \<Rightarrow> ustr \<Rightarrow> json \<Rightarrow> error + json" where
  "py_get (JDict kvs) k d = Inr (case map_of kvs k of None \<Rightarrow> d | Some v \<Rightarrow> v)"
| "py_get JNull k d = Inl NoAttribute"
| "py_get (JBool b) k d = Inl NoAttribute"
| "py_get (JInt i) k d = Inl NoAttribute"
| "py_get (JFloat r) k d = Inl NoAttribute"
| "py_get (JStr s) k d = Inl NoAttribute"
| "py_get (JList xs) k d = Inl NoAttribute"

text \<open>\<open>x in HOMEWORK_VERDICTS\<close>: the value is hashed first, which a list or a dict
  refuses; a hashable value that is not a string equals no key of the table.\<close>

fun in_verdicts :: "json \<Rightarrow> error + bool" where
  "in_verdicts (JStr s) = Inr (map_of HOMEWORK_VERDICTS s \<noteq> None)"
| "in_verdicts (JList xs) = Inl Unhashable"
| "in_verdicts (JDict kvs) = Inl Unhashable"
| "in_verdicts JNull = Inr False"
| "in_verdicts (JBool b) = Inr False"
| "in_verdicts (JInt i) = Inr False"
| "in_verdicts (JFloat r) = Inr False"

text \<open>
  A replacement field of \<open>str.format\<close> inserts a string as it is and any other value as
  \<open>str\<close> renders it. That rendering (the repr of floats, lists and dicts) belongs to
  the interpreter and is the parameter \<open>str_of\<close>.
\<close>

definition format_field :: "(json \<Rightarrow> ustr) \<Rightarrow> json \<Rightarrow> ustr" where
  "format_field str_of v = (case v of JStr s \<Rightarrow> s | _ \<Rightarrow> str_of v)"

section \<open>Response Validator and Status Formatter\<close>

text \<open>\<open>check_response\<close>, lines 81 to 94.\<close>

definition check_response :: "json \<Rightarrow> error + json list" where
  "check_response response =
     (case response of
        JDict kvs \<Rightarrow>
          if map_of kvs (ascii ''homeworks'') = None
             \<or> map_of kvs (ascii ''current_date'') = None
          then Inl (EmptyResponseFromAPI text_no_homeworks)
          else (case map_of kvs (ascii ''homeworks'') of
                  Some (JList homeworks) \<Rightarrow> Inr homeworks
                | _ \<Rightarrow> Inl (TypeError text_not_list))
      | _ \<Rightarrow> Inl (TypeError text_not_dict))"

text \<open>
  \<open>parse_status\<close>, lines 97 to 112. The poll loop passes it the first element of the
  validated list, which can be any value, so the model follows the interpreter on values
  that are not dicts as well. \<open>template name verdict\<close> is the format string of line 109
  with both fields filled in; the code points 34, 46, 32 are the double quote, the full
  stop and the space between the two fields.
\<close>

definition template :: "ustr \<Rightarrow> ustr \<Rightarrow> ustr" where
  "template name verdict = status_changed_prefix @ name @ [34, 46, 32] @ verdict"

definition parse_status :: "(json \<Rightarrow> ustr) \<Rightarrow> json \<Rightarrow> error + ustr" where
  "parse_status str_of homework =
     (case py_in (ascii ''homework_name'') homework of
        Inl e \<Rightarrow> Inl e
      | Inr False \<Rightarrow> Inl (KeyError text_no_homework_name)
      | Inr True \<Rightarrow>
          (case py_get homework (ascii ''homework_name'') JNull of
             Inl e \<Rightarrow> Inl e
           | Inr homework_name \<Rightarrow>
               (case py_get homework (ascii ''status'') JNull of
                  Inl e \<Rightarrow> Inl e
                | Inr homework_status \<Rightarrow>
                    (case in_verdicts homework_status of
                       Inl e \<Rightarrow> Inl e
                     | Inr False \<Rightarrow> Inl (ValueError homework_status)
                     | Inr True \<Rightarrow>
                         (case homework_status of
                            JStr s \<Rightarrow>
                              (case map_of HOMEWORK_VERDICTS s of
                                 Some verdict \<Rightarrow>
                                   Inr (template (format_field str_of homework_name) verdict)
                               | None \<Rightarrow> Inl (KeyError s))
                          | _ \<Rightarrow> Inl Unhashable)))))"

section \<open>The outside world\<close>

text \<open>
  The program talks to the homework API and to Telegram and reads the clock. What they
  answer is an input of the model, and what the program asks of them is recorded as a
  list of events: \<open>ApiRequest t\<close> is the GET of line 65 with \<open>from_date = t\<close>,
  \<open>BotSend m ok\<close> is the call \<open>bot.send_message\<close> of line 38 with the text \<open>m\<close>,
  where \<open>ok\<close> tells whether the call returned, and \<open>Sleep n\<close> is \<open>time.sleep(n)\<close>.
  Writing to the log changes nothing the program reads back and is left out.
\<close>

datatype event =
    ApiRequest json
  | BotSend ustr bool
  | Sleep nat

text \<open>\<open>bot.send_message\<close> returns, or raises \<open>telegram.error.TelegramError\<close>, whose
  rendering is the text carried by \<open>Refused\<close>.\<close>

datatype delivery = Delivered | Refused ustr

text \<open>
  \<open>requests.get\<close> raises (\<open>Failed\<close>, with the rendering of the exception) or returns a
  response. Of the response the program reads the status code, the reason, the text and
  \<open>json()\<close>, which raises a decode error (\<open>Inl\<close>) or returns the decoded value.
\<close>

record http_response =
  status_code :: int
  reason :: ustr
  body_text :: ustr
  json_body :: "ustr + json"

datatype http_result = Failed ustr | Responded http_response

section \<open>Notifier and API Client\<close>

text \<open>\<open>send_message\<close>, lines 35 to 45; \<open>answer\<close> is what \<open>bot.send_message\<close> does.\<close>

definition send_message :: "delivery \<Rightarrow> ustr \<Rightarrow> event list \<times> (error + unit)" where
  "send_message answer message =
     (case answer of
        Delivered \<Rightarrow> ([BotSend message True], Inr ())
      | Refused error \<Rightarrow>
          ([BotSend message False], Inl (TelegramError (telegram_error_prefix @ error))))"

text \<open>
  \<open>get_api_answer\<close>, lines 48 to 78; \<open>now\<close> is \<open>int(time.time())\<close> and \<open>answer\<close> is
  what \<open>requests.get\<close> does. The handler of line 74 catches the exception raised at
  line 67 as well and wraps it once more.
\<close>

definition get_api_answer ::
    "int \<Rightarrow> http_result \<Rightarrow> json \<Rightarrow> event list \<times> (error + json)" where
  "get_api_answer now answer current_timestamp =
     (let timestamp = (if truthy current_timestamp then current_timestamp else JInt now)
      in ([ApiRequest timestamp],
          case answer of
            Failed error \<Rightarrow> Inl (WrongResponseCode timestamp (RequestException error))
          | Responded response \<Rightarrow>
              if status_code response \<noteq> 200
              then Inl (WrongResponseCode timestamp
                          (WrongResponseCode_status (status_code response)
                             (reason response) (body_text response)))
              else (case json_body response of
                      Inl error \<Rightarrow> Inl (WrongResponseCode timestamp (JSONDecodeError error))
                    | Inr v \<Rightarrow> Inr v)))"

section \<open>Poll Loop\<close>

text \<open>
  The variables of \<open>main\<close> that the loop reads and writes. \<open>main\<close> enters the loop with
  the clock's reading as cursor and the empty string as last message (lines 130 and 134).
\<close>

record loop_state =
  current_timestamp :: json
  last_message :: ustr

definition initial_state :: "int \<Rightarrow> loop_state" where
  "initial_state now = \<lparr>current_timestamp = JInt now, last_message = []\<rparr>"

text \<open>What the outside does during one iteration of the loop, call by call.\<close>

record cycle_world =
  clock_fetch :: int
  api :: http_result
  clock_cursor :: int
  bot_first :: delivery
  bot_report :: delivery

text \<open>
  \<open>clock_fetch\<close> is the clock read at line 54, \<open>api\<close> the answer to the request of line
  65, \<open>clock_cursor\<close> the clock read at line 139 (the default of \<open>get\<close> is evaluated
  whether it is used or not), \<open>bot_first\<close> the answer to the send of line 146 and
  \<open>bot_report\<close> the answer to the send of line 155.

  An iteration is the \<open>try\<close> block, the handler and the \<open>finally\<close> clause. Each part
  returns its events, the variables as it leaves them, and the exception that leaves it,
  if one does. \<open>str_of\<close> renders a value and \<open>str_error\<close> an exception (\<open>str(error)\<close> in
  the f-string of line 152); both belong to the interpreter and to the classes of the
  module \<open>exceptions\<close>.
\<close>

definition try_body ::
    "(json \<Rightarrow> ustr) \<Rightarrow> cycle_world \<Rightarrow> loop_state \<Rightarrow> event list \<times> loop_state \<times> error option" where
  "try_body str_of w s =
     (case get_api_answer (clock_fetch w) (api w) (current_timestamp s) of
        (ev, Inl e) \<Rightarrow> (ev, s, Some e)
      | (ev, Inr response) \<Rightarrow>
          (case py_get response (ascii ''current_date'') (JInt (clock_cursor w)) of
             Inl e \<Rightarrow> (ev, s, Some e)
           | Inr date \<Rightarrow>
               (let s1 = s\<lparr>current_timestamp := date\<rparr> in
                case check_response response of
                  Inl e \<Rightarrow> (ev, s1, Some e)
                | Inr homeworks \<Rightarrow>
                    (case (case homeworks of
                             [] \<Rightarrow> Inr status_unchanged
                           | homework # _ \<Rightarrow> parse_status str_of homework) of
                       Inl e \<Rightarrow> (ev, s1, Some e)
                     | Inr message \<Rightarrow>
                         if message \<noteq> last_message s1
                         then (case send_message (bot_first w) message of
                                 (ev', Inl e) \<Rightarrow> (ev @ ev', s1, Some e)
                               | (ev', Inr _) \<Rightarrow>
                                   (ev @ ev', s1\<lparr>last_message := message\<rparr>, None))
                         else (ev, s1, None)))))"

definition except_handler ::
    "(error \<Rightarrow> ustr) \<Rightarrow> cycle_world \<Rightarrow> loop_state \<Rightarrow> error \<Rightarrow>
       event list \<times> loop_state \<times> error option" where
  "except_handler str_error w s error =
     (let message = failure_prefix @ str_error error
      in if message \<noteq> last_message s
         then (case send_message (bot_report w) message of
                 (ev, Inl e) \<Rightarrow> (ev, s, Some e)
               | (ev, Inr _) \<Rightarrow> (ev, s\<lparr>last_message := message\<rparr>, None))
         else ([], s, None))"

definition main_cycle ::
    "(json \<Rightarrow> ustr) \<Rightarrow> (error \<Rightarrow> ustr) \<Rightarrow> cycle_world \<Rightarrow> loop_state \<Rightarrow>
       event list \<times> loop_state \<times> error option" where
  "main_cycle str_of str_error w s =
     (case try_body str_of w s of
        (ev, s1, None) \<Rightarrow> (ev @ [Sleep RETRY_PERIOD], s1, None)
      | (ev, s1, Some error) \<Rightarrow>
          (case except_handler str_error w s1 error of
             (ev', s2, raised) \<Rightarrow> (ev @ ev' @ [Sleep RETRY_PERIOD], s2, raised)))"

text \<open>
  \<open>while True\<close>, lines 136 to 159. The loop ends only when an exception leaves an
  iteration. A run is followed for as many iterations as there are worlds in the list:
  the result is the events so far, the variables, and the exception that ended the loop,
  if one did.
\<close>

fun main_loop ::
    "(json \<Rightarrow> ustr) \<Rightarrow> (error \<Rightarrow> ustr) \<Rightarrow> cycle_world list \<Rightarrow> loop_state \<Rightarrow>
       event list \<times> loop_state \<times> error option" where
  "main_loop str_of str_error [] s = ([], s, None)"
| "main_loop str_of str_error (w # ws) s =
     (case main_cycle str_of str_error w s of
        (ev, s1, Some error) \<Rightarrow> (ev, s1, Some error)
      | (ev, s1, None) \<Rightarrow>
          (case main_loop str_of str_error ws s1 of
             (ev', s2, raised) \<Rightarrow> (ev @ ev', s2, raised)))"

text \<open>The texts of the notifications that were delivered, in order.\<close>

fun delivered :: "event list \<Rightarrow> ustr list" where
  "delivered [] = []"
| "delivered (BotSend m True # evs) = m # delivered evs"
| "delivered (e # evs) = delivered evs"

section \<open>Vocabulary of the statements\<close>

definition known_statuses :: "ustr set" where
  "known_statuses = {ascii ''approved'', ascii ''reviewing'', ascii ''rejected''}"

text \<open>The values Python can hash: every decoded value but a list or a dict.\<close>

fun hashable :: "json \<Rightarrow> bool" where
  "hashable (JList xs) = False"
| "hashable (JDict kvs) = False"
| "hashable v = True"

text \<open>
  The rendering of exceptions used in the examples: \<open>str\<close> of an exception that was
  given one text is that text; the examples render no other exception.
\<close>

fun message_of :: "error \<Rightarrow> ustr" where
  "message_of (TypeError m) = m"
| "message_of (EmptyResponseFromAPI m) = m"
| "message_of (TelegramError m) = m"
| "message_of e = []"

text \<open>
  What every iteration looks like from the outside: one request, then the calls to the
  bot, then the sleep. No call carries the text of the last message; at most one is
  delivered; the last message afterwards is the delivered text, or unchanged if none
  was; and a text whose call failed is not the last message afterwards.
\<close>

definition cycle_ok :: "loop_state \<Rightarrow> event list \<times> loop_state \<times> error option \<Rightarrow> bool" where
  "cycle_ok s r \<longleftrightarrow>
     (\<exists>ts sends. fst r = ApiRequest ts # sends @ [Sleep RETRY_PERIOD] \<and>
        (\<forall>e \<in> set sends. \<exists>t ok. e = BotSend t ok \<and> t \<noteq> last_message s) \<and>
        length (delivered sends) \<le> 1 \<and>
        last_message (fst (snd r)) = last (last_message s # delivered sends) \<and>
        (\<forall>t. BotSend t False \<in> set sends \<longrightarrow> t \<noteq> last_message (fst (snd r))))"

section \<open>Example worlds\<close>

text \<open>A success answer carrying the decoded document \<open>v\<close>; its text is not read.\<close>

definition ok_answer :: "json \<Rightarrow> http_result" where
  "ok_answer v =
     Responded \<lparr>status_code = 200, reason = ascii ''OK'', body_text = [], json_body = Inr v\<rparr>"

text \<open>The API answers \<open>v\<close>, and Telegram takes every message.\<close>

definition world_of :: "json \<Rightarrow> cycle_world" where
  "world_of v =
     \<lparr>clock_fetch = 777, api = ok_answer v, clock_cursor = 778,
      bot_first = Delivered, bot_report = Delivered\<rparr>"

definition doc_no_homework :: json where
  "doc_no_homework =
     JDict [(ascii ''homeworks'', JList []), (ascii ''current_date'', JInt 2000)]"

definition doc_hw1_approved :: json where
  "doc_hw1_approved =
     JDict [(ascii ''homeworks'',
             JList [JDict [(ascii ''homework_name'', JStr (ascii ''hw1'')),
                           (ascii ''status'', JStr (ascii ''approved''))]]),
            (ascii ''current_date'', JInt 1000)]"

section \<open>Facts about the validator and the formatter\<close>

lemma verdicts_lookup:
  "map_of HOMEWORK_VERDICTS s =
     (if s = ascii ''approved'' then Some verdict_approved
      else if s = ascii ''reviewing'' then Some verdict_reviewing
      else if s = ascii ''rejected'' then Some verdict_rejected
      else None)"
  by (simp add: HOMEWORK_VERDICTS_def)


lemma in_verdicts_False:
  "hashable st \<Longrightarrow> st \<notin> JStr ` known_statuses \<Longrightarrow> in_verdicts st = Inr False"
  by (cases st) (auto simp: verdicts_lookup known_statuses_def)

section \<open>Facts about one iteration\<close>

lemma get_api_answer_events:
  "fst (get_api_answer now answer ts) = [ApiRequest (if truthy ts then ts else JInt now)]"
  by (simp add: get_api_answer_def Let_def)

lemma send_message_cases:
  "send_message answer m = ([BotSend m True], Inr ()) \<and> answer = Delivered \<or>
   (\<exists>t. send_message answer m = ([BotSend m False], Inl (TelegramError (telegram_error_prefix @ t))) \<and> answer = Refused t)"
  by (cases answer) (simp_all add: send_message_def)

lemma parse_status_prefix:
  "parse_status str_of h = Inr m \<Longrightarrow> \<exists>rest. m = status_changed_prefix @ rest"
  by (auto simp: parse_status_def template_def split: sum.splits bool.splits json.splits option.splits)

lemma changed_not_failure: "status_changed_prefix @ rest \<noteq> failure_prefix @ x"
  by (simp add: status_changed_prefix_def failure_prefix_def)

lemma unchanged_not_failure: "status_unchanged \<noteq> failure_prefix @ x"
  by (simp add: status_unchanged_def failure_prefix_def)

lemma try_body_cases:
  obtains
    (raised) ts s1 e where "try_body str_of w s = ([ApiRequest ts], s1, Some e)" "last_message s1 = last_message s"
  | (same) ts s1 where "try_body str_of w s = ([ApiRequest ts], s1, None)" "last_message s1 = last_message s"
  | (sent) ts s1 m where "try_body str_of w s = ([ApiRequest ts, BotSend m True], s1\<lparr>last_message := m\<rparr>, None)"
       "last_message s1 = last_message s" "m \<noteq> last_message s" "\<forall>x. m \<noteq> failure_prefix @ x"
  | (refused) ts s1 m t where "try_body str_of w s = ([ApiRequest ts, BotSend m False], s1, Some (TelegramError (telegram_error_prefix @ t)))"
       "last_message s1 = last_message s" "m \<noteq> last_message s" "\<forall>x. m \<noteq> failure_prefix @ x" "bot_first w = Refused t"
proof -
  define ts where "ts = (if truthy (current_timestamp s) then current_timestamp s else JInt (clock_fetch w))"
  obtain r where g: "get_api_answer (clock_fetch w) (api w) (current_timestamp s) = ([ApiRequest ts], r)"
    using get_api_answer_events[of "clock_fetch w" "api w" "current_timestamp s"]
    by (cases "get_api_answer (clock_fetch w) (api w) (current_timestamp s)") (simp add: ts_def)
  show thesis
  proof (cases r)
    case (Inl e)
    with g have "try_body str_of w s = ([ApiRequest ts], s, Some e)"
      by (simp add: try_body_def)
    then show thesis using raised by blast
  next
    case response: (Inr response)
    show thesis
    proof (cases "py_get response (ascii ''current_date'') (JInt (clock_cursor w))")
      case (Inl e)
      with g response have "try_body str_of w s = ([ApiRequest ts], s, Some e)"
        by (simp add: try_body_def)
      then show thesis using raised by blast
    next
      case date: (Inr date)
      define s1 where "s1 = s\<lparr>current_timestamp := date\<rparr>"
      have l1: "last_message s1 = last_message s" by (simp add: s1_def)
      show thesis
      proof (cases "check_response response")
        case (Inl e)
        with g response date have "try_body str_of w s = ([ApiRequest ts], s1, Some e)"
          by (simp add: try_body_def s1_def)
        then show thesis using raised l1 by blast
      next
        case homeworks: (Inr homeworks)
        define pm where "pm = (case homeworks of [] \<Rightarrow> Inr status_unchanged
                           | homework # _ \<Rightarrow> parse_status str_of homework)"
        show thesis
        proof (cases pm)
          case (Inl e)
          with g response date homeworks have "try_body str_of w s = ([ApiRequest ts], s1, Some e)"
            by (simp add: try_body_def s1_def pm_def)
          then show thesis using raised l1 by blast
        next
          case m: (Inr m)
          have nf: "\<forall>x. m \<noteq> failure_prefix @ x"
          proof (cases homeworks)
            case Nil
            with m show ?thesis by (simp add: pm_def unchanged_not_failure)
          next
            case (Cons homework rest)
            with m have "parse_status str_of homework = Inr m" by (simp add: pm_def)
            then obtain r where "m = status_changed_prefix @ r"
              using parse_status_prefix by blast
            then show ?thesis by (simp add: changed_not_failure)
          qed
          show thesis
          proof (cases "m = last_message s")
            case True
            with g response date homeworks m have "try_body str_of w s = ([ApiRequest ts], s1, None)"
              by (simp add: try_body_def s1_def pm_def)
            then show thesis using same l1 by blast
          next
            case False
            show thesis
            proof (cases "bot_first w")
              case Delivered
              with False g response date homeworks m
              have "try_body str_of w s = ([ApiRequest ts, BotSend m True], s1\<lparr>last_message := m\<rparr>, None)"
                by (simp add: try_body_def s1_def pm_def send_message_def)
              then show thesis using sent l1 False nf by blast
            next
              case (Refused t)
              with False g response date homeworks m
              have "try_body str_of w s = ([ApiRequest ts, BotSend m False], s1,
                       Some (TelegramError (telegram_error_prefix @ t)))"
                by (simp add: try_body_def s1_def pm_def send_message_def)
              then show thesis using refused l1 False nf Refused by blast
            qed
          qed
        qed
      qed
    qed
  qed
qed

lemma except_handler_cases:
  obtains
    (same) "except_handler str_error w s e = ([], s, None)" "failure_prefix @ str_error e = last_message s"
  | (sent) "except_handler str_error w s e =
              ([BotSend (failure_prefix @ str_error e) True], s\<lparr>last_message := failure_prefix @ str_error e\<rparr>, None)"
           "failure_prefix @ str_error e \<noteq> last_message s" "bot_report w = Delivered"
  | (refused) t where "except_handler str_error w s e =
              ([BotSend (failure_prefix @ str_error e) False], s, Some (TelegramError (telegram_error_prefix @ t)))"
           "failure_prefix @ str_error e \<noteq> last_message s" "bot_report w = Refused t"
proof (cases "failure_prefix @ str_error e = last_message s")
  case True
  then have "except_handler str_error w s e = ([], s, None)"
    by (simp add: except_handler_def Let_def)
  then show thesis using same True by blast
next
  case False
  show thesis
  proof (cases "bot_report w")
    case Delivered
    with False show thesis using sent
      by (simp add: except_handler_def send_message_def Let_def)
  next
    case (Refused t)
    with False show thesis using refused
      by (simp add: except_handler_def send_message_def Let_def)
  qed
qed

lemma cycle_okI:
  assumes "r = (ApiRequest ts # sends @ [Sleep RETRY_PERIOD], s2, raised)"
    and "\<forall>e \<in> set sends. \<exists>t ok. e = BotSend t ok \<and> t \<noteq> last_message s"
    and "length (delivered sends) \<le> 1"
    and "last_message s2 = last (last_message s # delivered sends)"
    and "\<forall>t. BotSend t False \<in> set sends \<longrightarrow> t \<noteq> last_message s2"
  shows "cycle_ok s r"
  unfolding cycle_ok_def using assms by auto

lemma main_cycle_ok: "cycle_ok s (main_cycle str_of str_error w s)"
proof (cases rule: try_body_cases[of str_of w s])
  case (same ts s1)
  then show ?thesis
    by (intro cycle_okI[where sends = "[]" and ts = ts and ?s2.0 = s1 and raised = None])
       (auto simp: main_cycle_def)
next
  case (sent ts s1 m)
  then show ?thesis
    by (intro cycle_okI[where sends = "[BotSend m True]" and ts = ts
          and ?s2.0 = "s1\<lparr>last_message := m\<rparr>" and raised = None])
       (auto simp: main_cycle_def)
next
  case (raised ts s1 e)
  define r where "r = failure_prefix @ str_error e"
  show ?thesis
  proof (cases rule: except_handler_cases[of str_error w s1 e])
    case same
    with raised show ?thesis
      by (intro cycle_okI[where sends = "[]" and ts = ts and ?s2.0 = s1 and raised = None])
         (auto simp: main_cycle_def)
  next
    case sent
    with raised show ?thesis
      by (intro cycle_okI[where sends = "[BotSend r True]" and ts = ts
            and ?s2.0 = "s1\<lparr>last_message := r\<rparr>" and raised = None])
         (auto simp: main_cycle_def r_def)
  next
    case (refused t)
    with raised show ?thesis
      by (intro cycle_okI[where sends = "[BotSend r False]" and ts = ts
            and ?s2.0 = s1 and raised = "Some (TelegramError (telegram_error_prefix @ t))"])
         (auto simp: main_cycle_def r_def)
  qed
next
  case (refused ts s1 m t)
  define e where "e = TelegramError (telegram_error_prefix @ t)"
  define r where "r = failure_prefix @ str_error e"
  have mr: "m \<noteq> r" using refused(4) by (simp add: r_def)
  show ?thesis
  proof (cases rule: except_handler_cases[of str_error w s1 e])
    case same
    with refused show ?thesis
      by (intro cycle_okI[where sends = "[BotSend m False]" and ts = ts and ?s2.0 = s1 and raised = None])
         (auto simp: main_cycle_def e_def)
  next
    case sent
    with refused mr show ?thesis
      by (intro cycle_okI[where sends = "[BotSend m False, BotSend r True]" and ts = ts
            and ?s2.0 = "s1\<lparr>last_message := r\<rparr>" and raised = None])
         (auto simp: main_cycle_def r_def e_def)
  next
    case (refused t2)
    with \<open>try_body str_of w s = _\<close> \<open>last_message s1 = last_message s\<close> \<open>m \<noteq> last_message s\<close> show ?thesis
      by (intro cycle_okI[where sends = "[BotSend m False, BotSend r False]" and ts = ts
            and ?s2.0 = s1 and raised = "Some (TelegramError (telegram_error_prefix @ t2))"])
         (auto simp: main_cycle_def r_def e_def)
  qed
qed

lemma main_cycle_events:
  "\<exists>ts sends. fst (main_cycle str_of str_error w s) = ApiRequest ts # sends @ [Sleep RETRY_PERIOD] \<and>
      (\<forall>e \<in> set sends. \<exists>t ok. e = BotSend t ok)"
proof -
  from main_cycle_ok[of s str_of str_error w] obtain ts sends where
    "fst (main_cycle str_of str_error w s) = ApiRequest ts # sends @ [Sleep RETRY_PERIOD]"
    "\<forall>e \<in> set sends. \<exists>t ok. e = BotSend t ok \<and> t \<noteq> last_message s"
    unfolding cycle_ok_def by (elim exE conjE)
  then have "\<forall>e \<in> set sends. \<exists>t ok. e = BotSend t ok" by blast
  with \<open>fst _ = _\<close> show ?thesis by (intro exI[of _ ts] exI[of _ sends] conjI)
qed

lemma main_loop_Cons_events:
  "fst (main_loop str_of str_error (w # ws) s) =
     fst (main_cycle str_of str_error w s) @
     (case snd (snd (main_cycle str_of str_error w s)) of
        None \<Rightarrow> fst (main_loop str_of str_error ws (fst (snd (main_cycle str_of str_error w s))))
      | Some e \<Rightarrow> [])"
  by (simp split: prod.splits option.splits)

lemma request_after_sleep_append:
  assumes ev: "ev = ApiRequest t0 # sends @ [Sleep n]"
    and sends: "\<forall>e \<in> set sends. \<exists>t ok. e = BotSend t ok"
    and rest: "\<And>pre ts post. rest = pre @ ApiRequest ts # post \<Longrightarrow> pre \<noteq> [] \<Longrightarrow> last pre = Sleep n"
    and split: "ev @ rest = pre @ ApiRequest ts # post" and ne: "pre \<noteq> []"
  shows "last pre = Sleep n"
proof -
  from split ne ev obtain pre' where pre: "pre = ApiRequest t0 # pre'"
    and eq: "(sends @ [Sleep n]) @ rest = pre' @ ApiRequest ts # post"
    by (cases pre) auto
  from eq have "\<exists>us. sends @ [Sleep n] = pre' @ us \<and> us @ rest = ApiRequest ts # post \<or>
      (sends @ [Sleep n]) @ us = pre' \<and> rest = us @ ApiRequest ts # post"
    by (simp only: append_eq_append_conv2)
  then consider us where "sends @ [Sleep n] = pre' @ us" "us @ rest = ApiRequest ts # post"
    | us where "(sends @ [Sleep n]) @ us = pre'" "rest = us @ ApiRequest ts # post"
    by blast
  then show ?thesis
  proof cases
    case 1
    show ?thesis
    proof (cases us)
      case Nil
      with 1 have "pre' = sends @ [Sleep n]" by simp
      with pre show ?thesis by simp
    next
      case (Cons u us')
      with 1 have "u = ApiRequest ts" by simp
      with Cons 1(1) have "sends @ [Sleep n] = pre' @ ApiRequest ts # us'" by simp
      then have "ApiRequest ts \<in> set (sends @ [Sleep n])"
        by (simp only: in_set_conv_decomp) blast
      with sends show ?thesis by auto
    qed
  next
    case 2
    show ?thesis
    proof (cases us)
      case Nil
      with 2 have "pre' = sends @ [Sleep n]" by simp
      with pre show ?thesis by simp
    next
      case (Cons u us')
      then have ne: "us \<noteq> []" by simp
      have "last us = Sleep n" by (rule rest[OF 2(2) ne])
      moreover have "pre = (ApiRequest t0 # sends @ [Sleep n]) @ us"
        using pre 2(1) by simp
      ultimately show ?thesis using ne by (simp only: last_append if_False)
    qed
  qed
qed

lemma main_loop_request_after_sleep:
  "fst (main_loop str_of str_error ws s) = pre @ ApiRequest ts # post \<Longrightarrow> pre \<noteq> [] \<Longrightarrow>
     last pre = Sleep RETRY_PERIOD"
proof (induction ws arbitrary: s pre ts post)
  case Nil
  then show ?case by simp
next
  case (Cons w ws)
  obtain t0 sends where ev: "fst (main_cycle str_of str_error w s) = ApiRequest t0 # sends @ [Sleep RETRY_PERIOD]"
    and sends: "\<forall>e \<in> set sends. \<exists>t ok. e = BotSend t ok"
    using main_cycle_events by blast
  define rest where "rest = (case snd (snd (main_cycle str_of str_error w s)) of
        None \<Rightarrow> fst (main_loop str_of str_error ws (fst (snd (main_cycle str_of str_error w s))))
      | Some e \<Rightarrow> [])"
  have rest: "last pre = Sleep RETRY_PERIOD" if "rest = pre @ ApiRequest ts # post" "pre \<noteq> []" for pre ts post
    using that Cons.IH by (auto simp: rest_def split: option.splits)
  have eq: "fst (main_cycle str_of str_error w s) @ rest = pre @ ApiRequest ts # post"
    using Cons.prems(1) unfolding main_loop_Cons_events rest_def by simp
  show ?case
  proof (rule request_after_sleep_append[OF ev sends _ eq Cons.prems(2)])
    fix pre' ts' post'
    assume "rest = pre' @ ApiRequest ts' # post'" "pre' \<noteq> []"
    then show "last pre' = Sleep RETRY_PERIOD" by (rule rest)
  qed
qed

section \<open>Facts about delivered notifications\<close>

lemma delivered_append: "delivered (xs @ ys) = delivered xs @ delivered ys"
  by (induction xs rule: delivered.induct) simp_all

lemma set_delivered: "t \<in> set (delivered evs) \<longleftrightarrow> BotSend t True \<in> set evs"
  by (induction evs rule: delivered.induct) auto

lemma main_cycle_summary:
  obtains ts sends where
    "fst (main_cycle str_of str_error w s) = ApiRequest ts # sends @ [Sleep RETRY_PERIOD]"
    "delivered (fst (main_cycle str_of str_error w s)) = delivered sends"
    "\<forall>t ok. BotSend t ok \<in> set sends \<longrightarrow> t \<noteq> last_message s"
    "length (delivered sends) \<le> 1"
    "last_message (fst (snd (main_cycle str_of str_error w s))) =
       last (last_message s # delivered sends)"
    "\<forall>t. BotSend t False \<in> set sends \<longrightarrow>
       t \<noteq> last_message (fst (snd (main_cycle str_of str_error w s)))"
proof -
  from main_cycle_ok[of s str_of str_error w] obtain ts sends where
    ev: "fst (main_cycle str_of str_error w s) = ApiRequest ts # sends @ [Sleep RETRY_PERIOD]"
    and ne: "\<forall>e \<in> set sends. \<exists>t ok. e = BotSend t ok \<and> t \<noteq> last_message s"
    and len: "length (delivered sends) \<le> 1"
    and lm: "last_message (fst (snd (main_cycle str_of str_error w s))) =
       last (last_message s # delivered sends)"
    and el: "\<forall>t. BotSend t False \<in> set sends \<longrightarrow>
       t \<noteq> last_message (fst (snd (main_cycle str_of str_error w s)))"
    unfolding cycle_ok_def by (elim exE conjE)
  have d: "delivered (fst (main_cycle str_of str_error w s)) = delivered sends"
    unfolding ev by (simp add: delivered_append)
  have ne': "\<forall>t ok. BotSend t ok \<in> set sends \<longrightarrow> t \<noteq> last_message s"
  proof (intro allI impI)
    fix t ok assume a: "BotSend t ok \<in> set sends"
    from bspec[OF ne a] show "t \<noteq> last_message s" by auto
  qed
  show thesis using that[OF ev d ne' len lm el] .
qed

lemma main_cycle_distinct_adj:
  "distinct_adj (last_message s # delivered (fst (main_cycle str_of str_error w s)))"
proof -
  obtain ts sends where
    d: "delivered (fst (main_cycle str_of str_error w s)) = delivered sends"
    and ne: "\<forall>t ok. BotSend t ok \<in> set sends \<longrightarrow> t \<noteq> last_message s"
    and len: "length (delivered sends) \<le> 1"
    by (rule main_cycle_summary[of str_of str_error w s])
  show ?thesis
  proof (cases "delivered sends")
    case Nil
    with d show ?thesis by simp
  next
    case (Cons t rest)
    with len have rest: "rest = []" by simp
    from Cons have "t \<in> set (delivered sends)" by simp
    then have "BotSend t True \<in> set sends" by (simp add: set_delivered)
    with ne have "t \<noteq> last_message s" by blast
    with d Cons rest show ?thesis by simp
  qed
qed

lemma distinct_adj_chain:
  assumes "distinct_adj (x # xs)" and "distinct_adj (last (x # xs) # ys)"
  shows "distinct_adj (x # xs @ ys)"
proof -
  have "distinct_adj ((x # xs) @ ys)"
    unfolding distinct_adj_append_iff using assms
    by (cases ys) (simp_all del: last.simps)
  then show ?thesis by simp
qed

lemma main_loop_delivered:
  "distinct_adj (last_message s # delivered (fst (main_loop str_of str_error ws s)))"
proof (induction ws arbitrary: s)
  case Nil
  then show ?case by simp
next
  case (Cons w ws)
  obtain ev s1 r where c: "main_cycle str_of str_error w s = (ev, s1, r)"
    by (cases "main_cycle str_of str_error w s") auto
  have da: "distinct_adj (last_message s # delivered ev)"
    using main_cycle_distinct_adj[of s str_of str_error w] c by simp
  have lm: "last_message s1 = last (last_message s # delivered ev)"
    using c by (cases rule: main_cycle_summary[of str_of str_error w s]) simp
  show ?case
  proof (cases r)
    case (Some e)
    with c da show ?thesis by simp
  next
    case None
    obtain ev' s2 r' where l: "main_loop str_of str_error ws s1 = (ev', s2, r')"
      by (cases "main_loop str_of str_error ws s1") auto
    have "distinct_adj (last_message s1 # delivered ev')"
      using Cons.IH[of s1] l by simp
    with lm have "distinct_adj (last (last_message s # delivered ev) # delivered ev')"
      by simp
    with da have "distinct_adj (last_message s # delivered ev @ delivered ev')"
      by (rule distinct_adj_chain)
    with c None l show ?thesis by (simp add: delivered_append)
  qed
qed

section \<open>Facts about the request of an iteration\<close>

lemma try_body_first_event:
  "\<exists>rest. fst (try_body str_of w s) =
     ApiRequest (if truthy (current_timestamp s) then current_timestamp s
                 else JInt (clock_fetch w)) # rest"
proof -
  obtain r where "get_api_answer (clock_fetch w) (api w) (current_timestamp s) =
      ([ApiRequest (if truthy (current_timestamp s) then current_timestamp s
                    else JInt (clock_fetch w))], r)"
    using get_api_answer_events[of "clock_fetch w" "api w" "current_timestamp s"]
    by (cases "get_api_answer (clock_fetch w) (api w) (current_timestamp s)") simp
  then show ?thesis
    by (simp add: try_body_def Let_def send_message_def
          split: sum.splits list.splits delivery.splits)
qed

lemma main_cycle_first_event:
  "hd (fst (main_cycle str_of str_error w s)) =
     ApiRequest (if truthy (current_timestamp s) then current_timestamp s
                 else JInt (clock_fetch w))"
proof -
  obtain rest where "fst (try_body str_of w s) =
     ApiRequest (if truthy (current_timestamp s) then current_timestamp s
                 else JInt (clock_fetch w)) # rest"
    using try_body_first_event by blast
  moreover obtain ev s1 r where t: "try_body str_of w s = (ev, s1, r)"
    by (cases "try_body str_of w s") auto
  ultimately have "\<exists>tl. fst (main_cycle str_of str_error w s) =
     ApiRequest (if truthy (current_timestamp s) then current_timestamp s
                 else JInt (clock_fetch w)) # tl"
    by (cases r; cases "except_handler str_error w s1 (the r)") (simp_all add: main_cycle_def)
  then show ?thesis by auto
qed

section \<open>Response Validator\<close>

text \<open>
  C4. For every dict response that contains both the key \<open>homeworks\<close> and the key
  \<open>current_date\<close>, and whose \<open>homeworks\<close> value is a list, \<open>check_response\<close> returns
  exactly that list, whether it is empty or not.
\<close>

theorem check_response_returns_homeworks:
  assumes "map_of kvs (ascii ''homeworks'') = Some (JList homeworks)"
    and "map_of kvs (ascii ''current_date'') = Some d"
  shows "check_response (JDict kvs) = Inr homeworks"
  using assms by (simp add: check_response_def)

theorem check_response_returns_homeworks_witness:
  "check_response doc_no_homework = Inr [] \<and>
   check_response doc_hw1_approved =
     Inr [JDict [(ascii ''homework_name'', JStr (ascii ''hw1'')),
                 (ascii ''status'', JStr (ascii ''approved''))]]"
proof
  have "map_of [(ascii ''homeworks'', JList []), (ascii ''current_date'', JInt 2000)]
          (ascii ''homeworks'') = Some (JList [])"
    and "map_of [(ascii ''homeworks'', JList []), (ascii ''current_date'', JInt 2000)]
          (ascii ''current_date'') = Some (JInt 2000)"
    by (simp_all add: ascii_def)
  then show "check_response doc_no_homework = Inr []"
    unfolding doc_no_homework_def by (rule check_response_returns_homeworks)
next
  show "check_response doc_hw1_approved =
     Inr [JDict [(ascii ''homework_name'', JStr (ascii ''hw1'')),
                 (ascii ''status'', JStr (ascii ''approved''))]]"
    unfolding doc_hw1_approved_def
    by (rule check_response_returns_homeworks[where d = "JInt 1000"]) (simp_all add: ascii_def)
qed

text \<open>
  C5. For every dict response that lacks the key \<open>homeworks\<close> or the key
  \<open>current_date\<close>, or both, \<open>check_response\<close> fails with \<open>EmptyResponseFromAPI\<close>.
\<close>

theorem check_response_missing_key:
  assumes "map_of kvs (ascii ''homeworks'') = None \<or> map_of kvs (ascii ''current_date'') = None"
  shows "check_response (JDict kvs) = Inl (EmptyResponseFromAPI text_no_homeworks)"
  using assms by (simp add: check_response_def)

theorem check_response_missing_key_witness:
  "check_response (JDict [(ascii ''homeworks'', JList [])]) =
     Inl (EmptyResponseFromAPI text_no_homeworks) \<and>
   check_response (JDict [(ascii ''current_date'', JInt 2000)]) =
     Inl (EmptyResponseFromAPI text_no_homeworks) \<and>
   check_response (JDict []) = Inl (EmptyResponseFromAPI text_no_homeworks)"
  using check_response_missing_key[of "[(ascii ''homeworks'', JList [])]"]
    check_response_missing_key[of "[(ascii ''current_date'', JInt 2000)]"]
    check_response_missing_key[of "[]"]
  by (simp add: ascii_def)

section \<open>Status Formatter\<close>



text \<open>
  C3, as the specification states it: for any homework record (a dict) whose status
  is none of the three known values, \<open>parse_status\<close> fails with a value error. The
  record that has such a status and no \<open>homework_name\<close> fails with the key error
  of line 103, which is raised first.
\<close>

theorem parse_status_unknown_status_counterexample:
  "ascii ''lost'' \<notin> known_statuses \<and>
   parse_status (\<lambda>v. []) (JDict [(ascii ''status'', JStr (ascii ''lost''))]) =
     Inl (KeyError text_no_homework_name)"
  by (simp add: parse_status_def ascii_def known_statuses_def)

text \<open>
  C3, amended: for any homework record that contains the key \<open>homework_name\<close> and
  whose status (\<open>None\<close> when the key \<open>status\<close> is absent) is a hashable value other
  than the three known ones, \<open>parse_status\<close> fails with a value error.
\<close>

theorem parse_status_unknown_status:
  assumes "map_of kvs (ascii ''homework_name'') = Some name"
    and "st = (case map_of kvs (ascii ''status'') of None \<Rightarrow> JNull | Some v \<Rightarrow> v)"
    and "hashable st" and "st \<notin> JStr ` known_statuses"
  shows "parse_status str_of (JDict kvs) = Inl (ValueError st)"
  using assms(1,2) in_verdicts_False[OF assms(3,4)] by (simp add: parse_status_def)

theorem parse_status_unknown_status_witness:
  "parse_status (\<lambda>v. [])
      (JDict [(ascii ''homework_name'', JStr (ascii ''hw1'')),
              (ascii ''status'', JStr (ascii ''lost''))]) =
     Inl (ValueError (JStr (ascii ''lost''))) \<and>
   parse_status (\<lambda>v. []) (JDict [(ascii ''homework_name'', JStr (ascii ''hw1''))]) =
     Inl (ValueError JNull)"
  using parse_status_unknown_status[of
      "[(ascii ''homework_name'', JStr (ascii ''hw1'')),
        (ascii ''status'', JStr (ascii ''lost''))]"
      "JStr (ascii ''hw1'')" "JStr (ascii ''lost'')" "\<lambda>v. []"]
    parse_status_unknown_status[of
      "[(ascii ''homework_name'', JStr (ascii ''hw1''))]"
      "JStr (ascii ''hw1'')" JNull "\<lambda>v. []"]
  by (simp add: ascii_def known_statuses_def image_iff)

section \<open>Poll Loop\<close>

lemmas cycle_defs =
  main_cycle_def try_body_def except_handler_def get_api_answer_def send_message_def
  check_response_def world_of_def ok_answer_def initial_state_def ascii_def Let_def

text \<open>
  C8. Every iteration of the poll loop ends with a sleep of the fixed retry period
  before the next iteration begins, also when the \<open>try\<close> block or the handler raised:
  the events of an iteration, whatever its outcome, are events without a sleep followed
  by \<open>Sleep RETRY_PERIOD\<close>, and in a run of the loop every request but the first comes
  directly after \<open>Sleep RETRY_PERIOD\<close>.
\<close>

theorem cycle_ends_with_sleep:
  "(\<exists>pre. fst (main_cycle str_of str_error w s) = pre @ [Sleep RETRY_PERIOD] \<and>
          (\<forall>n. Sleep n \<notin> set pre)) \<and>
   (\<forall>pre ts post.
      fst (main_loop str_of str_error ws s) = pre @ ApiRequest ts # post \<and> pre \<noteq> [] \<longrightarrow>
      last pre = Sleep RETRY_PERIOD)"
proof
  obtain t0 sends where
    ev: "fst (main_cycle str_of str_error w s) = ApiRequest t0 # sends @ [Sleep RETRY_PERIOD]"
    and sends: "\<forall>e \<in> set sends. \<exists>t ok. e = BotSend t ok"
    using main_cycle_events by blast
  have "\<forall>n. Sleep n \<notin> set (ApiRequest t0 # sends)" using sends by auto
  with ev show "\<exists>pre. fst (main_cycle str_of str_error w s) = pre @ [Sleep RETRY_PERIOD] \<and>
          (\<forall>n. Sleep n \<notin> set pre)"
    by (intro exI[of _ "ApiRequest t0 # sends"]) simp
next
  show "\<forall>pre ts post.
      fst (main_loop str_of str_error ws s) = pre @ ApiRequest ts # post \<and> pre \<noteq> [] \<longrightarrow>
      last pre = Sleep RETRY_PERIOD"
  proof (intro allI impI)
    fix pre ts post
    assume "fst (main_loop str_of str_error ws s) = pre @ ApiRequest ts # post \<and> pre \<noteq> []"
    then show "last pre = Sleep RETRY_PERIOD"
      using main_loop_request_after_sleep[of str_of str_error ws s pre ts post] by simp
  qed
qed

theorem cycle_ends_with_sleep_witness:
  "fst (main_loop (\<lambda>v. []) message_of
          [world_of doc_no_homework, world_of doc_no_homework] (initial_state 500)) =
     [ApiRequest (JInt 500), BotSend status_unchanged True, Sleep 600] @
       ApiRequest (JInt 2000) # [Sleep 600] \<and>
   [ApiRequest (JInt 500), BotSend status_unchanged True, Sleep 600] \<noteq> [] \<and>
   last [ApiRequest (JInt 500), BotSend status_unchanged True, Sleep 600] =
     Sleep RETRY_PERIOD"
proof -
  have run: "fst (main_loop (\<lambda>v. []) message_of
          [world_of doc_no_homework, world_of doc_no_homework] (initial_state 500)) =
     [ApiRequest (JInt 500), BotSend status_unchanged True, Sleep 600] @
       ApiRequest (JInt 2000) # [Sleep 600]"
    by (simp add: cycle_defs doc_no_homework_def status_unchanged_def RETRY_PERIOD_def)
  from cycle_ends_with_sleep[of "\<lambda>v. []" message_of "world_of doc_no_homework"
      "initial_state 500" "[world_of doc_no_homework, world_of doc_no_homework]"] run
  show ?thesis by blast
qed

section \<open>API Client\<close>

text \<open>
  C7. Every call of \<open>get_api_answer\<close> makes one request and no second one. If the
  request raises (a network error), if the status of the response is not 200, or if the
  body does not decode as JSON, the call fails with \<open>WrongResponseCode\<close>; if the status
  is 200 and the body decodes, the call returns the decoded value as it is.
\<close>

theorem get_api_answer_outcomes:
  "fst (get_api_answer now answer cursor) =
     [ApiRequest (if truthy cursor then cursor else JInt now)] \<and>
   (\<forall>t. answer = Failed t \<longrightarrow>
      snd (get_api_answer now answer cursor) =
        Inl (WrongResponseCode (if truthy cursor then cursor else JInt now)
               (RequestException t))) \<and>
   (\<forall>r. answer = Responded r \<and> status_code r \<noteq> 200 \<longrightarrow>
      snd (get_api_answer now answer cursor) =
        Inl (WrongResponseCode (if truthy cursor then cursor else JInt now)
               (WrongResponseCode_status (status_code r) (reason r) (body_text r)))) \<and>
   (\<forall>r t. answer = Responded r \<and> status_code r = 200 \<and> json_body r = Inl t \<longrightarrow>
      snd (get_api_answer now answer cursor) =
        Inl (WrongResponseCode (if truthy cursor then cursor else JInt now)
               (JSONDecodeError t))) \<and>
   (\<forall>r v. answer = Responded r \<and> status_code r = 200 \<and> json_body r = Inr v \<longrightarrow>
      snd (get_api_answer now answer cursor) = Inr v)"
  by (simp add: get_api_answer_def Let_def)

theorem get_api_answer_outcomes_witness:
  "snd (get_api_answer 777 (Failed (ascii ''Connection refused'')) (JInt 500)) =
     Inl (WrongResponseCode (JInt 500) (RequestException (ascii ''Connection refused''))) \<and>
   snd (get_api_answer 777
          (Responded \<lparr>status_code = 503, reason = ascii ''Service Unavailable'',
                      body_text = ascii ''busy'', json_body = Inl (ascii ''Expecting value'')\<rparr>)
          (JInt 500)) =
     Inl (WrongResponseCode (JInt 500)
            (WrongResponseCode_status 503 (ascii ''Service Unavailable'') (ascii ''busy''))) \<and>
   snd (get_api_answer 777
          (Responded \<lparr>status_code = 200, reason = ascii ''OK'',
                      body_text = ascii ''busy'', json_body = Inl (ascii ''Expecting value'')\<rparr>)
          (JInt 500)) =
     Inl (WrongResponseCode (JInt 500) (JSONDecodeError (ascii ''Expecting value''))) \<and>
   snd (get_api_answer 777 (ok_answer doc_no_homework) (JInt 500)) = Inr doc_no_homework"
  using
    get_api_answer_outcomes[of 777 "Failed (ascii ''Connection refused'')" "JInt 500"]
    get_api_answer_outcomes[of 777
      "Responded \<lparr>status_code = 503, reason = ascii ''Service Unavailable'',
                  body_text = ascii ''busy'', json_body = Inl (ascii ''Expecting value'')\<rparr>"
      "JInt 500"]
    get_api_answer_outcomes[of 777
      "Responded \<lparr>status_code = 200, reason = ascii ''OK'',
                  body_text = ascii ''busy'', json_body = Inl (ascii ''Expecting value'')\<rparr>"
      "JInt 500"]
    get_api_answer_outcomes[of 777 "ok_answer doc_no_homework" "JInt 500"]
  by (simp add: ok_answer_def)

section \<open>Notifier failures\<close>




section \<open>De-duplication\<close>

text \<open>
  C2. In every iteration of the poll loop the message of the iteration, be it the
  message of the normal path or the error report, is passed to the Notifier only if it
  differs from the last message: no call of an iteration carries the text that is the
  last message when the iteration starts. Hence the same text is never delivered twice
  in a row: in every run of the loop, from any state, the delivered texts, preceded by
  the last message of the start, have no two equal neighbours.
\<close>

theorem no_repeated_notification:
  "(\<forall>t ok. BotSend t ok \<in> set (fst (main_cycle str_of str_error w s)) \<longrightarrow>
       t \<noteq> last_message s) \<and>
   distinct_adj (last_message s # delivered (fst (main_loop str_of str_error ws s)))"
proof
  obtain ts sends where
    ev: "fst (main_cycle str_of str_error w s) = ApiRequest ts # sends @ [Sleep RETRY_PERIOD]"
    and ne: "\<forall>t ok. BotSend t ok \<in> set sends \<longrightarrow> t \<noteq> last_message s"
    by (rule main_cycle_summary[of str_of str_error w s])
  show "\<forall>t ok. BotSend t ok \<in> set (fst (main_cycle str_of str_error w s)) \<longrightarrow>
       t \<noteq> last_message s"
    unfolding ev using ne by simp
next
  show "distinct_adj (last_message s # delivered (fst (main_loop str_of str_error ws s)))"
    by (rule main_loop_delivered)
qed

theorem no_repeated_notification_witness:
  "BotSend status_unchanged True \<in>
     set (fst (main_cycle (\<lambda>v. []) message_of (world_of doc_no_homework) (initial_state 500))) \<and>
   status_unchanged \<noteq> last_message (initial_state 500) \<and>
   delivered (fst (main_loop (\<lambda>v. []) message_of
       [world_of doc_no_homework, world_of doc_no_homework, world_of doc_hw1_approved,
        world_of doc_no_homework]
       (initial_state 500))) =
     [status_unchanged, template (ascii ''hw1'') verdict_approved, status_unchanged] \<and>
   distinct_adj
     [[], status_unchanged, template (ascii ''hw1'') verdict_approved, status_unchanged]"
proof -
  have c: "fst (main_cycle (\<lambda>v. []) message_of (world_of doc_no_homework) (initial_state 500)) =
      [ApiRequest (JInt 500), BotSend status_unchanged True, Sleep 600]"
    by (simp add: cycle_defs doc_no_homework_def status_unchanged_def RETRY_PERIOD_def)
  have l: "delivered (fst (main_loop (\<lambda>v. []) message_of
       [world_of doc_no_homework, world_of doc_no_homework, world_of doc_hw1_approved,
        world_of doc_no_homework]
       (initial_state 500))) =
     [status_unchanged, template (ascii ''hw1'') verdict_approved, status_unchanged]"
    by (simp add: cycle_defs doc_no_homework_def doc_hw1_approved_def status_unchanged_def
          parse_status_def HOMEWORK_VERDICTS_def format_field_def template_def
          status_changed_prefix_def verdict_approved_def)
  have i: "last_message (initial_state 500) = []"
    by (simp add: initial_state_def)
  note run = no_repeated_notification[of "\<lambda>v. []" message_of "world_of doc_no_homework"
      "initial_state 500"
      "[world_of doc_no_homework, world_of doc_no_homework, world_of doc_hw1_approved,
        world_of doc_no_homework]"]
  have s: "BotSend status_unchanged True \<in>
     set (fst (main_cycle (\<lambda>v. []) message_of (world_of doc_no_homework) (initial_state 500)))"
    by (simp only: c) simp
  with run have n: "status_unchanged \<noteq> last_message (initial_state 500)"
    by blast
  from run have "distinct_adj (last_message (initial_state 500) #
      delivered (fst (main_loop (\<lambda>v. []) message_of
       [world_of doc_no_homework, world_of doc_no_homework, world_of doc_hw1_approved,
        world_of doc_no_homework]
       (initial_state 500))))"
    by (rule conjunct2)
  then have "distinct_adj
     [[], status_unchanged, template (ascii ''hw1'') verdict_approved, status_unchanged]"
    by (simp only: l i)
  with s n l show ?thesis by (intro conjI)
qed

text \<open>
  C10. In every iteration, on the normal path and on the error-report path alike, the
  last message is updated only after the call of the Notifier has returned: when the
  \<open>try\<close> block raises, the last message is as it was before the block; when the
  handler raises, the variables are as they were before the handler; the last message
  after an iteration is the text delivered last in it, or the old one if none was
  delivered. A text whose call failed is therefore not the last message afterwards, so
  the next iteration would send it again.
\<close>

theorem last_message_after_send:
  "(snd (snd (try_body str_of w s)) \<noteq> None \<longrightarrow>
      last_message (fst (snd (try_body str_of w s))) = last_message s) \<and>
   (snd (snd (except_handler str_error w s e)) \<noteq> None \<longrightarrow>
      fst (snd (except_handler str_error w s e)) = s) \<and>
   last_message (fst (snd (main_cycle str_of str_error w s))) =
     last (last_message s # delivered (fst (main_cycle str_of str_error w s))) \<and>
   (\<forall>t. BotSend t False \<in> set (fst (main_cycle str_of str_error w s)) \<longrightarrow>
      t \<noteq> last_message (fst (snd (main_cycle str_of str_error w s))))"
proof (intro conjI)
  show "snd (snd (try_body str_of w s)) \<noteq> None \<longrightarrow>
      last_message (fst (snd (try_body str_of w s))) = last_message s"
    by (cases rule: try_body_cases[of str_of w s]) simp_all
next
  show "snd (snd (except_handler str_error w s e)) \<noteq> None \<longrightarrow>
      fst (snd (except_handler str_error w s e)) = s"
    by (cases rule: except_handler_cases[of str_error w s e]) simp_all
next
  show "last_message (fst (snd (main_cycle str_of str_error w s))) =
     last (last_message s # delivered (fst (main_cycle str_of str_error w s)))"
    by (cases rule: main_cycle_summary[of str_of str_error w s]) (simp only:)
next
  obtain ts sends where
    ev: "fst (main_cycle str_of str_error w s) = ApiRequest ts # sends @ [Sleep RETRY_PERIOD]"
    and el: "\<forall>t. BotSend t False \<in> set sends \<longrightarrow>
       t \<noteq> last_message (fst (snd (main_cycle str_of str_error w s)))"
    by (rule main_cycle_summary[of str_of str_error w s])
  show "\<forall>t. BotSend t False \<in> set (fst (main_cycle str_of str_error w s)) \<longrightarrow>
      t \<noteq> last_message (fst (snd (main_cycle str_of str_error w s)))"
    using el by (simp add: ev)
qed

theorem last_message_after_send_witness:
  "snd (snd (try_body (\<lambda>v. [])
       ((world_of doc_no_homework)\<lparr>bot_first := Refused (ascii ''Timed out'')\<rparr>)
       (initial_state 500))) \<noteq> None \<and>
   last_message (fst (snd (try_body (\<lambda>v. [])
       ((world_of doc_no_homework)\<lparr>bot_first := Refused (ascii ''Timed out'')\<rparr>)
       (initial_state 500)))) = [] \<and>
   snd (snd (except_handler message_of
       ((world_of doc_no_homework)\<lparr>bot_report := Refused (ascii ''Timed out'')\<rparr>)
       (initial_state 500) (TypeError text_not_list))) \<noteq> None \<and>
   fst (snd (except_handler message_of
       ((world_of doc_no_homework)\<lparr>bot_report := Refused (ascii ''Timed out'')\<rparr>)
       (initial_state 500) (TypeError text_not_list))) = initial_state 500 \<and>
   BotSend status_unchanged False \<in>
     set (fst (main_cycle (\<lambda>v. []) message_of
       ((world_of doc_no_homework)\<lparr>bot_first := Refused (ascii ''Timed out'')\<rparr>)
       (initial_state 500))) \<and>
   status_unchanged \<noteq>
     last_message (fst (snd (main_cycle (\<lambda>v. []) message_of
       ((world_of doc_no_homework)\<lparr>bot_first := Refused (ascii ''Timed out'')\<rparr>)
       (initial_state 500))))"
proof -
  let ?w1 = "(world_of doc_no_homework)\<lparr>bot_first := Refused (ascii ''Timed out'')\<rparr>"
  let ?w2 = "(world_of doc_no_homework)\<lparr>bot_report := Refused (ascii ''Timed out'')\<rparr>"
  have t: "snd (snd (try_body (\<lambda>v. []) ?w1 (initial_state 500))) \<noteq> None"
    by (simp add: cycle_defs doc_no_homework_def status_unchanged_def)
  have h: "snd (snd (except_handler message_of ?w2 (initial_state 500)
      (TypeError text_not_list))) \<noteq> None"
    by (simp add: cycle_defs failure_prefix_def)
  have c: "BotSend status_unchanged False \<in>
     set (fst (main_cycle (\<lambda>v. []) message_of ?w1 (initial_state 500)))"
    by (simp add: cycle_defs doc_no_homework_def status_unchanged_def)
  have i: "last_message (initial_state 500) = []"
    by (simp add: initial_state_def)
  note first = last_message_after_send[of "\<lambda>v. []" ?w1 "initial_state 500" message_of
      "TypeError text_not_list"]
  note report = last_message_after_send[of "\<lambda>v. []" ?w2 "initial_state 500" message_of
      "TypeError text_not_list"]
  from first t have 1: "last_message (fst (snd (try_body (\<lambda>v. []) ?w1 (initial_state 500)))) =
      last_message (initial_state 500)"
    by blast
  from report h have 2: "fst (snd (except_handler message_of ?w2 (initial_state 500)
      (TypeError text_not_list))) = initial_state 500"
    by blast
  from first c have 3: "status_unchanged \<noteq>
      last_message (fst (snd (main_cycle (\<lambda>v. []) message_of ?w1 (initial_state 500))))"
    by blast
  from t h c 1 2 3 i show ?thesis by simp
qed

section \<open>Cursor\<close>

text \<open>
  C9, as stated: the cursor is set from \<open>current_date\<close> before the response is
  validated, so that after a response with \<open>current_date\<close> that fails validation the
  cursor is that value and the next fetch uses it. For the response that has
  \<open>current_date\<close> 0 and no \<open>homeworks\<close> the cursor becomes 0, and the next request
  asks from the reading of the clock, 777, not from 0.
\<close>

theorem cursor_after_invalid_response_counterexample:
  "current_timestamp (fst (snd (main_cycle (\<lambda>v. []) message_of
       (world_of (JDict [(ascii ''current_date'', JInt 0)])) (initial_state 500)))) = JInt 0 \<and>
   fst (main_loop (\<lambda>v. []) message_of
       [world_of (JDict [(ascii ''current_date'', JInt 0)]), world_of doc_no_homework]
       (initial_state 500)) =
     [ApiRequest (JInt 500), BotSend (failure_prefix @ text_no_homeworks) True, Sleep 600,
      ApiRequest (JInt 777), BotSend status_unchanged True, Sleep 600]"
  by (simp add: cycle_defs doc_no_homework_def status_unchanged_def RETRY_PERIOD_def
        failure_prefix_def text_no_homeworks_def)

text \<open>
  C9, amended: the cursor is set from \<open>current_date\<close> before the response is
  validated. For every response that contains \<open>current_date\<close> and fails validation
  (no key \<open>homeworks\<close>, or a value that is not a list), the cursor is already that
  value when the handler reports the error and stays so to the end of the iteration;
  the next fetch is called with it, and its request asks from it if it is truthy and
  from the clock if it is not (0, null, an empty string and the like).
\<close>

theorem cursor_after_invalid_response:
  assumes "api w = Responded r" and "status_code r = 200"
    and "json_body r = Inr (JDict kvs)"
    and "map_of kvs (ascii ''current_date'') = Some d"
    and "\<forall>hs. map_of kvs (ascii ''homeworks'') \<noteq> Some (JList hs)"
  shows "\<exists>e ts.
     check_response (JDict kvs) = Inl e \<and>
     try_body str_of w s = ([ApiRequest ts], s\<lparr>current_timestamp := d\<rparr>, Some e) \<and>
     main_cycle str_of str_error w s =
       (case except_handler str_error w (s\<lparr>current_timestamp := d\<rparr>) e of
          (ev, s2, raised) \<Rightarrow> ([ApiRequest ts] @ ev @ [Sleep RETRY_PERIOD], s2, raised)) \<and>
     current_timestamp (fst (snd (main_cycle str_of str_error w s))) = d \<and>
     (\<forall>w'. hd (fst (main_cycle str_of str_error w'
                     (fst (snd (main_cycle str_of str_error w s))))) =
            ApiRequest (if truthy d then d else JInt (clock_fetch w')))"
proof -
  define ts where
    "ts = (if truthy (current_timestamp s) then current_timestamp s else JInt (clock_fetch w))"
  have g: "get_api_answer (clock_fetch w) (api w) (current_timestamp s) =
      ([ApiRequest ts], Inr (JDict kvs))"
    using assms(1-3) by (simp add: get_api_answer_def ts_def)
  obtain e where e: "check_response (JDict kvs) = Inl e"
  proof (cases "check_response (JDict kvs)")
    case (Inl e)
    then show thesis by (rule that)
  next
    case (Inr hs)
    then have "map_of kvs (ascii ''homeworks'') = Some (JList hs)"
      by (auto simp: check_response_def split: if_splits option.splits json.splits)
    with assms(5) show thesis by simp
  qed
  have t: "try_body str_of w s = ([ApiRequest ts], s\<lparr>current_timestamp := d\<rparr>, Some e)"
    using g e assms(4) by (simp add: try_body_def)
  have c: "main_cycle str_of str_error w s =
       (case except_handler str_error w (s\<lparr>current_timestamp := d\<rparr>) e of
          (ev, s2, raised) \<Rightarrow> ([ApiRequest ts] @ ev @ [Sleep RETRY_PERIOD], s2, raised))"
    using t by (simp add: main_cycle_def)
  have d: "current_timestamp (fst (snd (main_cycle str_of str_error w s))) = d"
    unfolding c
    by (cases rule: except_handler_cases[of str_error w "s\<lparr>current_timestamp := d\<rparr>" e])
       simp_all
  show ?thesis
    using e t c d main_cycle_first_event[of str_of str_error _
        "fst (snd (main_cycle str_of str_error w s))"]
    by simp
qed

theorem cursor_after_invalid_response_witness:
  "current_timestamp (fst (snd (main_cycle (\<lambda>v. []) message_of
       (world_of (JDict [(ascii ''current_date'', JInt 3000)])) (initial_state 500)))) =
     JInt 3000 \<and>
   hd (fst (main_cycle (\<lambda>v. []) message_of (world_of doc_no_homework)
       (fst (snd (main_cycle (\<lambda>v. []) message_of
          (world_of (JDict [(ascii ''current_date'', JInt 3000)])) (initial_state 500)))))) =
     ApiRequest (JInt 3000)"
proof -
  let ?w = "world_of (JDict [(ascii ''current_date'', JInt 3000)])"
  let ?r = "\<lparr>status_code = 200, reason = ascii ''OK'', body_text = [],
        json_body = Inr (JDict [(ascii ''current_date'', JInt 3000)])\<rparr>"
  have a: "api ?w = Responded ?r" by (simp add: world_of_def ok_answer_def)
  have b: "status_code ?r = 200"
    and c: "json_body ?r = Inr (JDict [(ascii ''current_date'', JInt 3000)])"
    by simp_all
  have d: "map_of [(ascii ''current_date'', JInt 3000)] (ascii ''current_date'') =
      Some (JInt 3000)"
    and e: "\<forall>hs. map_of [(ascii ''current_date'', JInt 3000)] (ascii ''homeworks'') \<noteq>
      Some (JList hs)"
    by (simp_all add: ascii_def)
  from cursor_after_invalid_response[OF a b c d e, of "\<lambda>v. []" "initial_state 500" message_of]
  have "current_timestamp (fst (snd (main_cycle (\<lambda>v. []) message_of ?w (initial_state 500)))) =
      JInt 3000"
    and "\<forall>w'. hd (fst (main_cycle (\<lambda>v. []) message_of w'
           (fst (snd (main_cycle (\<lambda>v. []) message_of ?w (initial_state 500)))))) =
         ApiRequest (if truthy (JInt 3000) then JInt 3000 else JInt (clock_fetch w'))"
    by blast+
  then show ?thesis by simp
qed

end
